theory Spec2Isabelle
  imports Main
begin

section \<open>Secret masking\<close>

text \<open>
  \<^verbatim>\<open>LiteLLMKeys._mask_api_key\<close> (models/litellm_keys.py). Python's \<^verbatim>\<open>"*" * n\<close> is
  \<open>replicate n\<close>, \<^verbatim>\<open>s[:8]\<close> is \<open>take 8 s\<close> and \<^verbatim>\<open>s[-4:]\<close> is
  \<open>drop (length s - 4) s\<close> (the subtraction truncates at 0, as the slice does).
\<close>

definition mask_api_key :: "string \<Rightarrow> string" where
  "mask_api_key api_key =
     (if length api_key \<le> 12 then replicate (length api_key) (CHR ''*'')
      else take 8 api_key @ replicate (length api_key - 12) (CHR ''*'')
             @ drop (length api_key - 4) api_key)"

text \<open>
  \<^verbatim>\<open>LiteLLMClient._mask_key\<close> (utils/litellm_client.py). \<^verbatim>\<open>not api_key\<close> is true of the
  empty string, for which the source writes eight asterisks.
\<close>

definition mask_key :: "string \<Rightarrow> string" where
  "mask_key api_key =
     (if api_key = [] \<or> length api_key \<le> 12
      then replicate (if api_key \<noteq> [] then length api_key else 8) (CHR ''*'')
      else take 8 api_key @ replicate (length api_key - 12) (CHR ''*'')
             @ drop (length api_key - 4) api_key)"

section \<open>Data model\<close>

text \<open>
  Exceptions of the source, as values. \<open>DatabaseError\<close> is the error of a statement that
  the database rejects, \<open>TypeError\<close> that of iterating over \<^verbatim>\<open>None\<close>, and \<open>Exception\<close>
  stands for any other exception.
\<close>

datatype exn =
    ValueError string
  | IntegrityError
  | DatabaseError
  | TypeError
  | HTTPException nat string
  | Exception string

type_synonym metadata_dict = "(string \<times> string) list"

text \<open>
  A row of table \<^verbatim>\<open>litellm_key\<close> (class \<^verbatim>\<open>LiteLLMKey\<close>). Column \<^verbatim>\<open>id\<close> is field
  \<open>row_id\<close>, since \<open>id\<close> is the identity function of HOL. \<^verbatim>\<open>LiteLLMKeyModel\<close> has the same
  fields, and \<^verbatim>\<open>model_validate\<close> copies them one by one, so one record serves for both.
\<close>

record LiteLLMKey =
  row_id :: string
  user_id :: string
  key_name :: string
  api_key :: string
  key_type :: string
  group_ids :: "string list option"
  is_active :: bool
  description :: "string option"
  metadata :: "metadata_dict option"
  created_at :: int
  updated_at :: int
  last_used_at :: "int option"

type_synonym LiteLLMKeyModel = LiteLLMKey

record LiteLLMKeyCreateForm =
  cf_key_name :: string
  cf_api_key :: string
  cf_key_type :: string
  cf_group_ids :: "string list option"
  cf_description :: "string option"
  cf_metadata :: "metadata_dict option"

record LiteLLMKeyUpdateForm =
  uf_key_name :: "string option"
  uf_api_key :: "string option"
  uf_key_type :: "string option"
  uf_group_ids :: "string list option"
  uf_is_active :: "bool option"
  uf_description :: "string option"
  uf_metadata :: "metadata_dict option"

record LiteLLMKeyListResponse =
  lr_keys :: "LiteLLMKeyModel list"
  lr_total :: nat

text \<open>The table: its rows in insertion order.\<close>

type_synonym db = "LiteLLMKey list"

section \<open>The local store: class \<^verbatim>\<open>LiteLLMKeys\<close>\<close>

text \<open>
  Every operation takes the table and returns its result with the table afterwards. An
  operation that raises rolls back, so it returns the table it was given.
  \<^verbatim>\<open>query.filter(...).first()\<close> is \<open>find\<close>. The fresh \<^verbatim>\<open>uuid4\<close> and the clock
  \<^verbatim>\<open>int(time.time())\<close> are the parameters \<open>new_id\<close> and \<open>now\<close>.
\<close>

definition name_exists_msg :: "string \<Rightarrow> string" where
  "name_exists_msg name = ''Key name '' @ [CHR 0x27] @ name @ [CHR 0x27] @ '' already exists''"

definition masked :: "LiteLLMKey \<Rightarrow> LiteLLMKeyModel" where
  "masked key = key\<lparr>api_key := mask_api_key (api_key key)\<rparr>"

definition create_key ::
  "db \<Rightarrow> string \<Rightarrow> int \<Rightarrow> string \<Rightarrow> LiteLLMKeyCreateForm \<Rightarrow> (exn + LiteLLMKeyModel) \<times> db" where
  "create_key db new_id now uid key_data =
     (case find (\<lambda>k. user_id k = uid \<and> key_name k = cf_key_name key_data) db of
        Some existing_key \<Rightarrow> (Inl (ValueError (name_exists_msg (cf_key_name key_data))), db)
      | None \<Rightarrow>
          (let new_key = \<lparr>row_id = new_id, user_id = uid,
                 key_name = cf_key_name key_data, api_key = cf_api_key key_data,
                 key_type = cf_key_type key_data, group_ids = cf_group_ids key_data,
                 is_active = True, description = cf_description key_data,
                 metadata = cf_metadata key_data, created_at = now, updated_at = now,
                 last_used_at = None\<rparr>
           in if new_id \<in> set (map row_id db) then (Inl IntegrityError, db)
              else (Inr new_key, db @ [new_key])))"

definition get_keys_by_user_id :: "db \<Rightarrow> string \<Rightarrow> nat \<Rightarrow> nat \<Rightarrow> LiteLLMKeyListResponse" where
  "get_keys_by_user_id db uid skip limit =
     \<lparr>lr_keys = map masked (take limit (drop skip (filter (\<lambda>k. user_id k = uid) db))),
      lr_total = length (filter (\<lambda>k. user_id k = uid) db)\<rparr>"

definition get_key_by_id :: "db \<Rightarrow> string \<Rightarrow> string \<Rightarrow> LiteLLMKeyModel option" where
  "get_key_by_id db key_id uid =
     (case find (\<lambda>k. row_id k = key_id \<and> user_id k = uid) db of
        Some key \<Rightarrow> Some (masked key)
      | None \<Rightarrow> None)"

text \<open>The rename check of \<^verbatim>\<open>update_key\<close>: made only when a name is given.\<close>

definition check_rename :: "db \<Rightarrow> string \<Rightarrow> string \<Rightarrow> string option \<Rightarrow> exn option" where
  "check_rename db key_id uid new_name =
     (case new_name of
        None \<Rightarrow> None
      | Some n \<Rightarrow>
          (case find (\<lambda>k. user_id k = uid \<and> key_name k = n \<and> row_id k \<noteq> key_id) db of
             Some existing_key \<Rightarrow> Some (ValueError (name_exists_msg n))
           | None \<Rightarrow> None))"

text \<open>The field assignments of \<^verbatim>\<open>update_key\<close>, each under its \<^verbatim>\<open>is not None\<close> test.\<close>

definition apply_update :: "LiteLLMKeyUpdateForm \<Rightarrow> int \<Rightarrow> LiteLLMKey \<Rightarrow> LiteLLMKey" where
  "apply_update update_data now key =
     key\<lparr>key_name := (case uf_key_name update_data of None \<Rightarrow> key_name key | Some v \<Rightarrow> v),
         api_key := (case uf_api_key update_data of None \<Rightarrow> api_key key | Some v \<Rightarrow> v),
         key_type := (case uf_key_type update_data of None \<Rightarrow> key_type key | Some v \<Rightarrow> v),
         group_ids := (case uf_group_ids update_data of None \<Rightarrow> group_ids key | Some v \<Rightarrow> Some v),
         is_active := (case uf_is_active update_data of None \<Rightarrow> is_active key | Some v \<Rightarrow> v),
         description :=
           (case uf_description update_data of None \<Rightarrow> description key | Some v \<Rightarrow> Some v),
         metadata := (case uf_metadata update_data of None \<Rightarrow> metadata key | Some v \<Rightarrow> Some v),
         updated_at := now\<rparr>"

text \<open>The commit writes the changed row back under its primary key.\<close>

definition update_key ::
  "db \<Rightarrow> int \<Rightarrow> string \<Rightarrow> string \<Rightarrow> LiteLLMKeyUpdateForm
     \<Rightarrow> (exn + LiteLLMKeyModel option) \<times> db" where
  "update_key db now key_id uid update_data =
     (case find (\<lambda>k. row_id k = key_id \<and> user_id k = uid) db of
        None \<Rightarrow> (Inr None, db)
      | Some key \<Rightarrow>
          (case check_rename db key_id uid (uf_key_name update_data) of
             Some e \<Rightarrow> (Inl e, db)
           | None \<Rightarrow>
               (let key' = apply_update update_data now key
                in (Inr (Some (masked key')),
                    map (\<lambda>k. if row_id k = row_id key then key' else k) db))))"

text \<open>\<^verbatim>\<open>db.delete(key)\<close> removes the row with the primary key of \<open>key\<close>.\<close>

definition delete_key :: "db \<Rightarrow> string \<Rightarrow> string \<Rightarrow> (exn + bool) \<times> db" where
  "delete_key db key_id uid =
     (case find (\<lambda>k. row_id k = key_id \<and> user_id k = uid) db of
        None \<Rightarrow> (Inr False, db)
      | Some key \<Rightarrow> (Inr True, filter (\<lambda>k. row_id k \<noteq> row_id key) db))"

text \<open>
  The query of \<^verbatim>\<open>get_keys_by_group_ids\<close> applies \<^verbatim>\<open>&&\<close>, the overlap of PostgreSQL
  arrays, to column \<^verbatim>\<open>group_ids\<close>, which is declared \<^verbatim>\<open>JSON\<close> (in the class and in the
  migration). SQLite has no operator \<^verbatim>\<open>&&\<close> and PostgreSQL has none on \<^verbatim>\<open>json\<close>: the
  database rejects the statement when it is executed, whatever the table holds. So the
  operator is an error here and not a test on rows.
\<close>

definition json_array_overlap :: "exn + (string list option \<Rightarrow> string list \<Rightarrow> bool)" where
  "json_array_overlap = Inl DatabaseError"

text \<open>
  The function has \<^verbatim>\<open>try\<close> and \<^verbatim>\<open>finally\<close> but no \<^verbatim>\<open>except\<close>: the error of the query
  goes to the caller.
\<close>

definition get_keys_by_group_ids ::
  "db \<Rightarrow> string list \<Rightarrow> string \<Rightarrow> exn + LiteLLMKeyModel list" where
  "get_keys_by_group_ids db gs uid =
     (case json_array_overlap of
        Inl e \<Rightarrow> Inl e
      | Inr overlap \<Rightarrow>
          Inr (map masked
                 (filter (\<lambda>k. is_active k)
                    (filter (\<lambda>k. user_id k = uid \<or> overlap (group_ids k) gs) db))))"

section \<open>The router over the local store\<close>

record UserModel =
  usr_id :: string
  role :: string

record GroupModel =
  grp_id :: string
  grp_name :: string

text \<open>
  \<^verbatim>\<open>Groups.get_user_groups\<close> is outside the program: a parameter, which may raise.
\<close>

type_synonym group_directory = "string \<Rightarrow> exn + GroupModel list"

definition check_litellm_access :: "UserModel \<Rightarrow> bool" where
  "check_litellm_access user = (role user \<in> set [''admin'', ''user''])"

definition get_user_groups :: "group_directory \<Rightarrow> UserModel \<Rightarrow> string list" where
  "get_user_groups directory user =
     (case directory (usr_id user) of
        Inl e \<Rightarrow> []
      | Inr user_groups \<Rightarrow> map grp_id user_groups)"

definition access_denied :: exn where
  "access_denied = HTTPException 403 ''Access denied to LiteLLM key management''"

definition key_not_found :: exn where
  "key_not_found = HTTPException 404 ''LiteLLM key not found''"

text \<open>Python's \<^verbatim>\<open>sep.join(xs)\<close>.\<close>

fun join :: "string \<Rightarrow> string list \<Rightarrow> string" where
  "join sep [] = []"
| "join sep [x] = x"
| "join sep (x # y # ys) = x @ sep @ join sep (y # ys)"

text \<open>
  The group validation of \<^verbatim>\<open>create_litellm_key\<close> and \<^verbatim>\<open>update_litellm_key\<close>: the
  same lines in both. It is skipped when the list is absent or empty
  (\<^verbatim>\<open>if key_data.group_ids:\<close>); otherwise it yields the exception to raise, if any.
\<close>

definition validate_groups ::
  "group_directory \<Rightarrow> UserModel \<Rightarrow> string list option \<Rightarrow> exn option" where
  "validate_groups directory user requested =
     (case requested of
        None \<Rightarrow> None
      | Some gids \<Rightarrow>
          if gids = [] then None
          else (let user_groups = get_user_groups directory user;
                    invalid_groups = filter (\<lambda>gid. gid \<notin> set user_groups) gids
                in if invalid_groups \<noteq> []
                   then Some (HTTPException 400
                          (''User is not a member of groups: '' @ join '', '' invalid_groups))
                   else None))"

text \<open>
  The \<^verbatim>\<open>except\<close> clauses of the endpoints. Most endpoints re-raise an
  \<^verbatim>\<open>HTTPException\<close> and turn anything else into a 500; create and update first turn a
  \<^verbatim>\<open>ValueError\<close> into a 400; \<^verbatim>\<open>get_litellm_keys\<close> has the single clause
  \<^verbatim>\<open>except Exception\<close>, which catches an \<^verbatim>\<open>HTTPException\<close> as well.
\<close>

definition except_http_reraise :: "string \<Rightarrow> exn \<Rightarrow> exn" where
  "except_http_reraise detail e =
     (case e of HTTPException code d \<Rightarrow> HTTPException code d | _ \<Rightarrow> HTTPException 500 detail)"

definition except_value_error :: "string \<Rightarrow> exn \<Rightarrow> exn" where
  "except_value_error detail e =
     (case e of
        ValueError msg \<Rightarrow> HTTPException 400 msg
      | HTTPException code d \<Rightarrow> HTTPException code d
      | _ \<Rightarrow> HTTPException 500 detail)"

definition except_exception :: "string \<Rightarrow> exn \<Rightarrow> exn" where
  "except_exception detail e = HTTPException 500 detail"

definition try_except :: "(exn \<Rightarrow> exn) \<Rightarrow> (exn + 'a) \<times> db \<Rightarrow> (exn + 'a) \<times> db" where
  "try_except handler r =
     (case fst r of Inl e \<Rightarrow> (Inl (handler e), snd r) | Inr v \<Rightarrow> (Inr v, snd r))"

definition get_litellm_keys ::
  "db \<Rightarrow> nat \<Rightarrow> nat \<Rightarrow> UserModel \<Rightarrow> (exn + LiteLLMKeyListResponse) \<times> db" where
  "get_litellm_keys db skip limit user =
     try_except (except_exception ''Failed to retrieve LiteLLM keys'')
       (if \<not> check_litellm_access user then (Inl access_denied, db)
        else (Inr (get_keys_by_user_id db (usr_id user) skip limit), db))"

definition get_litellm_key ::
  "db \<Rightarrow> string \<Rightarrow> UserModel \<Rightarrow> (exn + LiteLLMKeyModel) \<times> db" where
  "get_litellm_key db key_id user =
     try_except (except_http_reraise ''Failed to retrieve LiteLLM key'')
       (if \<not> check_litellm_access user then (Inl access_denied, db)
        else (case get_key_by_id db key_id (usr_id user) of
                None \<Rightarrow> (Inl key_not_found, db)
              | Some key \<Rightarrow> (Inr key, db)))"

definition create_litellm_key ::
  "group_directory \<Rightarrow> db \<Rightarrow> string \<Rightarrow> int \<Rightarrow> LiteLLMKeyCreateForm \<Rightarrow> UserModel
     \<Rightarrow> (exn + LiteLLMKeyModel) \<times> db" where
  "create_litellm_key directory db new_id now key_data user =
     try_except (except_value_error ''Failed to create LiteLLM key'')
       (if \<not> check_litellm_access user then (Inl access_denied, db)
        else (case validate_groups directory user (cf_group_ids key_data) of
                Some e \<Rightarrow> (Inl e, db)
              | None \<Rightarrow> create_key db new_id now (usr_id user) key_data))"

definition update_litellm_key ::
  "group_directory \<Rightarrow> db \<Rightarrow> int \<Rightarrow> string \<Rightarrow> LiteLLMKeyUpdateForm \<Rightarrow> UserModel
     \<Rightarrow> (exn + LiteLLMKeyModel) \<times> db" where
  "update_litellm_key directory db now key_id update_data user =
     try_except (except_value_error ''Failed to update LiteLLM key'')
       (if \<not> check_litellm_access user then (Inl access_denied, db)
        else (case validate_groups directory user (uf_group_ids update_data) of
                Some e \<Rightarrow> (Inl e, db)
              | None \<Rightarrow>
                  (case update_key db now key_id (usr_id user) update_data of
                     (Inl e, db') \<Rightarrow> (Inl e, db')
                   | (Inr None, db') \<Rightarrow> (Inl key_not_found, db')
                   | (Inr (Some key), db') \<Rightarrow> (Inr key, db'))))"

definition delete_litellm_key :: "db \<Rightarrow> string \<Rightarrow> UserModel \<Rightarrow> (exn + string) \<times> db" where
  "delete_litellm_key db key_id user =
     try_except (except_http_reraise ''Failed to delete LiteLLM key'')
       (if \<not> check_litellm_access user then (Inl access_denied, db)
        else (case delete_key db key_id (usr_id user) of
                (Inl e, db') \<Rightarrow> (Inl e, db')
              | (Inr success, db') \<Rightarrow>
                  if \<not> success then (Inl key_not_found, db')
                  else (Inr ''LiteLLM key deleted successfully'', db')))"

definition get_accessible_litellm_keys ::
  "group_directory \<Rightarrow> db \<Rightarrow> UserModel \<Rightarrow> (exn + LiteLLMKeyModel list) \<times> db" where
  "get_accessible_litellm_keys directory db user =
     try_except (except_http_reraise ''Failed to retrieve accessible LiteLLM keys'')
       (if \<not> check_litellm_access user then (Inl access_denied, db)
        else (let user_groups = get_user_groups directory user
              in if user_groups = [] then (Inr [], db)
                 else (case get_keys_by_group_ids db user_groups (usr_id user) of
                         Inl e \<Rightarrow> (Inl e, db)
                       | Inr keys \<Rightarrow> (Inr keys, db))))"

section \<open>The gateway client: class \<^verbatim>\<open>LiteLLMClient\<close>\<close>

text \<open>
  A field of a JSON dictionary read with \<^verbatim>\<open>.get\<close> is unset, or set to null, or set to a
  value. \<^verbatim>\<open>d.get(k, dflt)\<close> is \<open>dflt\<close> only when the field is unset.
\<close>

datatype 'a field = Unset | Null | Given 'a

fun dict_get :: "'a field \<Rightarrow> 'a \<Rightarrow> 'a option" where
  "dict_get Unset dflt = Some dflt"
| "dict_get Null dflt = None"
| "dict_get (Given v) dflt = Some v"

text \<open>
  An entry of the gateway's key listing. For \<^verbatim>\<open>user_id\<close> and \<^verbatim>\<open>api_key\<close> an unset and
  a null field are read alike by the client (neither equals a user id; both are masked
  to eight asterisks), so \<open>None\<close> stands for both; the other option fields are only
  passed on. For \<^verbatim>\<open>groups\<close> the two differ: the default \<^verbatim>\<open>[]\<close> replaces an unset field
  only, and iterating over a null raises \<^verbatim>\<open>TypeError\<close>. \<^verbatim>\<open>_make_request\<close> is outside
  the program: its outcome is a parameter, \<open>Inl\<close> the message of the exception it raised,
  \<open>Inr\<close> the field \<^verbatim>\<open>data\<close> of the answer.
\<close>

record KeyInfo =
  ki_id :: "string option"
  ki_user_id :: "string option"
  ki_key_name :: "string option"
  ki_api_key :: "string option"
  ki_groups :: "string list field"
  ki_is_active :: "bool option"
  ki_is_shared :: "bool option"






text \<open>
  The \<^verbatim>\<open>updates\<close> dictionary of \<^verbatim>\<open>update_user_key\<close> comes from
  \<^verbatim>\<open>update_data.dict(exclude_unset=True)\<close>.
\<close>

record Updates =
  up_key_name :: "string field"
  up_groups :: "string list field"
  up_is_active :: "bool field"
  up_description :: "string field"

record UpdatedKey =
  uk_id :: string
  uk_user_id :: string
  uk_key_name :: "string option"
  uk_api_key :: string
  uk_groups :: "string list option"
  uk_updated_at :: int
  uk_is_active :: "bool option"

text \<open>The gateway's answer to the PUT is not read; \<open>now\<close> is the clock.\<close>

definition update_user_key ::
  "string + 'r \<Rightarrow> int \<Rightarrow> string \<Rightarrow> string \<Rightarrow> Updates \<Rightarrow> exn + UpdatedKey" where
  "update_user_key response now key_id uid updates =
     (case response of
        Inl e \<Rightarrow> Inl (Exception (''Failed to update API key: '' @ e))
      | Inr r \<Rightarrow>
          Inr \<lparr>uk_id = key_id, uk_user_id = uid,
               uk_key_name = dict_get (up_key_name updates) '''',
               uk_api_key = mask_key '''',
               uk_groups = dict_get (up_groups updates) [],
               uk_updated_at = now,
               uk_is_active = dict_get (up_is_active updates) True\<rparr>)"

section \<open>Example data\<close>

text \<open>
  The scenario used to instantiate the theorems below: user \<open>u1\<close>, member of group
  \<open>g1\<close>, creates key \<open>k1\<close> shared with \<open>g1\<close>; \<open>u2\<close> is in \<open>g1\<close> too.
\<close>

definition form_k1 :: LiteLLMKeyCreateForm where
  "form_k1 = \<lparr>cf_key_name = ''k1'', cf_api_key = ''sk-abcdef1234567890'',
              cf_key_type = ''api_key'', cf_group_ids = Some [''g1''],
              cf_description = None, cf_metadata = None\<rparr>"

definition row_k1 :: LiteLLMKey where
  "row_k1 = \<lparr>row_id = ''id1'', user_id = ''u1'', key_name = ''k1'',
             api_key = ''sk-abcdef1234567890'', key_type = ''api_key'',
             group_ids = Some [''g1''], is_active = True, description = None,
             metadata = None, created_at = 100, updated_at = 100, last_used_at = None\<rparr>"

definition form_bad_groups :: LiteLLMKeyCreateForm where
  "form_bad_groups = form_k1\<lparr>cf_group_ids := Some [''g1'', ''g2'']\<rparr>"

definition no_update :: LiteLLMKeyUpdateForm where
  "no_update = \<lparr>uf_key_name = None, uf_api_key = None, uf_key_type = None,
                uf_group_ids = None, uf_is_active = None, uf_description = None,
                uf_metadata = None\<rparr>"

definition update_same_name :: LiteLLMKeyUpdateForm where
  "update_same_name = no_update\<lparr>uf_key_name := Some ''k1'', uf_is_active := Some False\<rparr>"


definition row_k2 :: LiteLLMKey where
  "row_k2 = row_k1\<lparr>row_id := ''id2'', key_name := ''k2''\<rparr>"

definition form_g123 :: LiteLLMKeyCreateForm where
  "form_g123 = form_k1\<lparr>cf_key_name := ''k3'', cf_group_ids := Some [''g1'', ''g2'', ''g3'']\<rparr>"

definition update_g123 :: LiteLLMKeyUpdateForm where
  "update_g123 = no_update\<lparr>uf_group_ids := Some [''g1'', ''g2'', ''g3'']\<rparr>"

definition user_u1 :: UserModel where
  "user_u1 = \<lparr>usr_id = ''u1'', role = ''user''\<rparr>"

definition user_pending :: UserModel where
  "user_pending = \<lparr>usr_id = ''u4'', role = ''pending''\<rparr>"

definition directory_g1 :: group_directory where
  "directory_g1 uid =
     (if uid = ''u1'' \<or> uid = ''u2'' then Inr [\<lparr>grp_id = ''g1'', grp_name = ''team''\<rparr>]
      else Inl (Exception ''group lookup failed''))"

definition directory_down :: group_directory where
  "directory_down uid = Inl (Exception ''group lookup failed'')"

definition info_k2_inactive :: KeyInfo where
  "info_k2_inactive = \<lparr>ki_id = Some ''id2'', ki_user_id = Some ''u2'',
      ki_key_name = Some ''k2'', ki_api_key = Some ''sk-abcdef1234567890'',
      ki_groups = Given [''g1''], ki_is_active = Some False, ki_is_shared = None\<rparr>"



definition only_description :: Updates where
  "only_description = \<lparr>up_key_name = Unset, up_groups = Unset, up_is_active = Unset,
                        up_description = Given ''rotated''\<rparr>"

section \<open>Masking\<close>

lemma length_mask_api_key: "length (mask_api_key s) = length s"
  by (auto simp: mask_api_key_def min_def)

lemma mask_key_nonempty: "s \<noteq> [] \<Longrightarrow> mask_key s = mask_api_key s"
  by (simp add: mask_key_def mask_api_key_def)

text \<open>
  C2, as the code has it. The store's masker keeps the length of every secret, turns a
  secret of at most 12 characters into asterisks only, and a longer one into its first 8
  characters, asterisks, and its last 4 characters. The client's masker does the same on
  every non-empty secret, and turns the empty secret into eight asterisks.
\<close>

theorem mask_shape:
  "length (mask_api_key s) = length s
   \<and> (length s \<le> 12 \<longrightarrow> (\<forall>c \<in> set (mask_api_key s). c = CHR ''*''))
   \<and> (12 < length s \<longrightarrow>
        mask_api_key s
          = take 8 s @ replicate (length s - 12) (CHR ''*'') @ drop (length s - 4) s)
   \<and> (s \<noteq> [] \<longrightarrow>
        length (mask_key s) = length s
        \<and> (length s \<le> 12 \<longrightarrow> (\<forall>c \<in> set (mask_key s). c = CHR ''*''))
        \<and> (12 < length s \<longrightarrow>
             mask_key s
               = take 8 s @ replicate (length s - 12) (CHR ''*'') @ drop (length s - 4) s))
   \<and> mask_key [] = replicate 8 (CHR ''*'')"
proof -
  have short: "length s \<le> 12 \<Longrightarrow> \<forall>c \<in> set (mask_api_key s). c = CHR ''*''"
    by (simp add: mask_api_key_def)
  have long: "12 < length s \<Longrightarrow> mask_api_key s
      = take 8 s @ replicate (length s - 12) (CHR ''*'') @ drop (length s - 4) s"
    by (simp add: mask_api_key_def)
  have empty: "mask_key [] = replicate 8 (CHR ''*'')"
    by (simp add: mask_key_def)
  show ?thesis
    by (simp add: short long empty length_mask_api_key mask_key_nonempty)
qed

theorem mask_shape_witness:
  "12 < length ''sk-abcdef1234567890''
   \<and> ''sk-abcdef1234567890'' \<noteq> []
   \<and> mask_api_key ''sk-abcdef1234567890'' = ''sk-abcde*******7890''
   \<and> mask_key ''sk-abcdef1234567890'' = ''sk-abcde*******7890''
   \<and> length ''short'' \<le> 12
   \<and> ''short'' \<noteq> []
   \<and> length (mask_api_key ''short'') = length ''short''
   \<and> set (mask_api_key ''short'') \<subseteq> {CHR ''*''}
   \<and> length (mask_key ''short'') = length ''short''
   \<and> set (mask_key ''short'') \<subseteq> {CHR ''*''}"
proof -
  have l: "12 < length ''sk-abcdef1234567890''" and ln: "''sk-abcdef1234567890'' \<noteq> []"
    by simp_all
  have s: "length ''short'' \<le> 12" and sn: "''short'' \<noteq> []"
    by simp_all
  have v: "take 8 ''sk-abcdef1234567890''
             @ replicate (length ''sk-abcdef1234567890'' - 12) (CHR ''*'')
             @ drop (length ''sk-abcdef1234567890'' - 4) ''sk-abcdef1234567890''
           = ''sk-abcde*******7890''"
    by simp
  have "mask_api_key ''sk-abcdef1234567890'' = ''sk-abcde*******7890''"
    and "mask_key ''sk-abcdef1234567890'' = ''sk-abcde*******7890''"
    using mask_shape [of "''sk-abcdef1234567890''"] l ln v by presburger+
  moreover have "length (mask_api_key ''short'') = length ''short''"
    and "set (mask_api_key ''short'') \<subseteq> {CHR ''*''}"
    and "length (mask_key ''short'') = length ''short''"
    and "set (mask_key ''short'') \<subseteq> {CHR ''*''}"
    using mask_shape [of "''short''"] s sn by blast+
  ultimately show ?thesis
    using l ln s sn by blast
qed

text \<open>
  C2 as stated fails for the client's masker at the empty secret: the result has
  length 8, not 0.
\<close>

theorem mask_key_empty_counterexample:
  "length (mask_key '''') = 8 \<and> length (mask_key '''') \<noteq> length ''''"
  by (simp add: mask_key_def)


section \<open>Secrets in the results of the local store\<close>

lemma find_SomeD: "find P xs = Some x \<Longrightarrow> P x \<and> x \<in> set xs"
  by (induction xs) (auto split: if_splits)

lemma find_NoneI: "(\<And>x. x \<in> set xs \<Longrightarrow> \<not> P x) \<Longrightarrow> find P xs = None"
  by (induction xs) auto

lemma find_unique:
  "distinct (map f xs) \<Longrightarrow> x \<in> set xs \<Longrightarrow> Q x \<Longrightarrow> find (\<lambda>k. f k = f x \<and> Q k) xs = Some x"
proof (induction xs)
  case Nil
  then show ?case by simp
next
  case (Cons y ys)
  show ?case
  proof (cases "y = x")
    case True
    with Cons.prems show ?thesis by simp
  next
    case False
    with Cons.prems have "x \<in> set ys" and "f y \<noteq> f x" and "distinct (map f ys)"
      by auto
    with Cons.IH Cons.prems(3) show ?thesis by simp
  qed
qed

lemma find_other_owner:
  assumes "distinct (map row_id db)" and "r \<in> set db" and "user_id r \<noteq> a"
  shows "find (\<lambda>k. row_id k = row_id r \<and> user_id k = a) db = None"
proof (rule find_NoneI)
  fix x assume x: "x \<in> set db"
  from assms(1) have "inj_on row_id (set db)"
    by (simp add: distinct_map)
  with x assms(2) have "row_id x = row_id r \<Longrightarrow> x = r"
    by (auto dest: inj_onD)
  with assms(3) show "\<not> (row_id x = row_id r \<and> user_id x = a)"
    by auto
qed




lemma row_id_apply_update [simp]: "row_id (apply_update u now key) = row_id key"
  by (simp add: apply_update_def)



lemma get_keys_by_group_ids_raises: "get_keys_by_group_ids db gs uid = Inl DatabaseError"
  by (simp add: get_keys_by_group_ids_def json_array_overlap_def)




section \<open>Ownership\<close>

text \<open>The row ids stay distinct: the primary key of the table.\<close>

lemma create_key_distinct:
  "distinct (map row_id db) \<Longrightarrow> distinct (map row_id (snd (create_key db new_id now uid f)))"
  by (auto simp: create_key_def Let_def split: option.splits)

lemma update_key_distinct:
  assumes "distinct (map row_id db)"
  shows "distinct (map row_id (snd (update_key db now key_id uid u)))"
proof -
  have "snd (update_key db now key_id uid u) = db
        \<or> (\<exists>key. snd (update_key db now key_id uid u)
              = map (\<lambda>k. if row_id k = row_id key then apply_update u now key else k) db)"
    by (auto simp: update_key_def Let_def split: option.splits)
  then show ?thesis
  proof
    assume "snd (update_key db now key_id uid u) = db"
    with assms show ?thesis by simp
  next
    assume "\<exists>key. snd (update_key db now key_id uid u)
              = map (\<lambda>k. if row_id k = row_id key then apply_update u now key else k) db"
    then obtain key where s: "snd (update_key db now key_id uid u)
              = map (\<lambda>k. if row_id k = row_id key then apply_update u now key else k) db"
      by blast
    have "map row_id (snd (update_key db now key_id uid u)) = map row_id db"
      unfolding s by (induction db) auto
    with assms show ?thesis by simp
  qed
qed

lemma delete_key_distinct:
  "distinct (map row_id db) \<Longrightarrow> distinct (map row_id (snd (delete_key db key_id uid)))"
  by (auto simp: delete_key_def distinct_map_filter split: option.splits)

text \<open>
  C3. A row owned by somebody else is out of reach of \<open>get_key_by_id\<close>, \<open>update_key\<close>
  and \<open>delete_key\<close>: they answer not found and leave the table as it is, whatever the
  groups or the activation of the row. The row ids are the primary key, hence distinct.
\<close>

theorem ownership_isolation:
  assumes "distinct (map row_id db)" and "r \<in> set db" and "user_id r \<noteq> a"
  shows "get_key_by_id db (row_id r) a = None
         \<and> update_key db now (row_id r) a update_data = (Inr None, db)
         \<and> delete_key db (row_id r) a = (Inr False, db)"
  using find_other_owner [OF assms]
  by (simp add: get_key_by_id_def update_key_def delete_key_def)

lemma row_k1_facts:
  "distinct (map row_id [row_k1])" "row_k1 \<in> set [row_k1]" "user_id row_k1 \<noteq> ''u2''"
  "group_ids row_k1 = Some [''g1'']" "is_active row_k1"
  by (simp_all add: row_k1_def)

theorem ownership_isolation_witness:
  "distinct (map row_id [row_k1]) \<and> row_k1 \<in> set [row_k1] \<and> user_id row_k1 \<noteq> ''u2''
   \<and> group_ids row_k1 = Some [''g1''] \<and> is_active row_k1
   \<and> get_key_by_id [row_k1] (row_id row_k1) ''u2'' = None
   \<and> update_key [row_k1] 200 (row_id row_k1) ''u2'' update_same_name = (Inr None, [row_k1])
   \<and> delete_key [row_k1] (row_id row_k1) ''u2'' = (Inr False, [row_k1])"
  using ownership_isolation [OF row_k1_facts(1,2,3), of 200 update_same_name] row_k1_facts
  by blast


section \<open>Uniqueness of names\<close>

lemma create_key_fresh:
  assumes "\<forall>k \<in> set db. \<not> (user_id k = uid \<and> key_name k = cf_key_name f)"
    and "new_id \<notin> set (map row_id db)"
  shows "\<exists>created. create_key db new_id now uid f = (Inr created, db @ [created])
           \<and> user_id created = uid \<and> key_name created = cf_key_name f"
proof -
  from assms(1) have "find (\<lambda>k. user_id k = uid \<and> key_name k = cf_key_name f) db = None"
    by (intro find_NoneI) blast
  with assms(2) show ?thesis
    by (simp add: create_key_def Let_def)
qed

lemma create_key_duplicate:
  assumes "k \<in> set db" and "user_id k = uid" and "key_name k = cf_key_name f"
  shows "create_key db new_id now uid f
         = (Inl (ValueError (name_exists_msg (cf_key_name f))), db)"
proof -
  from assms have "find (\<lambda>k. user_id k = uid \<and> key_name k = cf_key_name f) db \<noteq> None"
    by (auto simp: find_None_iff)
  then show ?thesis
    by (auto simp: create_key_def)
qed

lemma create_twice:
  assumes "\<forall>k \<in> set db. \<not> (user_id k = uid \<and> key_name k = cf_key_name f1)"
    and "id1 \<notin> set (map row_id db)"
    and "cf_key_name f2 = cf_key_name f1"
  shows "\<exists>created db'. create_key db id1 t1 uid f1 = (Inr created, db')
           \<and> create_key db' id2 t2 uid f2
               = (Inl (ValueError (name_exists_msg (cf_key_name f2))), db')"
proof -
  from create_key_fresh [OF assms(1,2)] obtain created
    where c: "create_key db id1 t1 uid f1 = (Inr created, db @ [created])"
      and o: "user_id created = uid" and n: "key_name created = cf_key_name f1"
    by blast
  have "created \<in> set (db @ [created])" by simp
  from create_key_duplicate [OF this o, of f2 id2 t2] n assms(3)
  have "create_key (db @ [created]) id2 t2 uid f2
        = (Inl (ValueError (name_exists_msg (cf_key_name f2))), db @ [created])"
    by simp
  with c show ?thesis by blast
qed

text \<open>
  C6. Where the owner has no key of that name yet (and the fresh ids are fresh), of two
  successive creations under the same owner and name the first succeeds and the second
  fails with the duplicate-name error, leaving the table as the first creation left it;
  this in either order of the two requests.
\<close>

theorem duplicate_name:
  assumes "\<forall>k \<in> set db. \<not> (user_id k = uid \<and> key_name k = cf_key_name f1)"
    and "id1 \<notin> set (map row_id db)" and "id2 \<notin> set (map row_id db)"
    and "cf_key_name f2 = cf_key_name f1"
  shows "(\<exists>created db'. create_key db id1 t1 uid f1 = (Inr created, db')
            \<and> create_key db' id2 t2 uid f2
                = (Inl (ValueError (name_exists_msg (cf_key_name f2))), db'))
         \<and> (\<exists>created db'. create_key db id2 t2 uid f2 = (Inr created, db')
            \<and> create_key db' id1 t1 uid f1
                = (Inl (ValueError (name_exists_msg (cf_key_name f1))), db'))"
proof
  show "\<exists>created db'. create_key db id1 t1 uid f1 = (Inr created, db')
            \<and> create_key db' id2 t2 uid f2
                = (Inl (ValueError (name_exists_msg (cf_key_name f2))), db')"
    by (rule create_twice [OF assms(1,2,4)])
next
  from assms(1,4) have "\<forall>k \<in> set db. \<not> (user_id k = uid \<and> key_name k = cf_key_name f2)"
    by simp
  from create_twice [OF this assms(3) assms(4) [symmetric]]
  show "\<exists>created db'. create_key db id2 t2 uid f2 = (Inr created, db')
            \<and> create_key db' id1 t1 uid f1
                = (Inl (ValueError (name_exists_msg (cf_key_name f1))), db')"
    .
qed

theorem duplicate_name_witness:
  "\<not> (\<exists>k \<in> set []. user_id k = ''u1'' \<and> key_name k = cf_key_name form_k1)
   \<and> ''id1'' \<notin> set (map row_id []) \<and> ''id2'' \<notin> set (map row_id [])
   \<and> cf_key_name form_bad_groups = cf_key_name form_k1
   \<and> (\<exists>created db'. create_key [] ''id1'' 100 ''u1'' form_k1 = (Inr created, db')
        \<and> create_key db' ''id2'' 200 ''u1'' form_bad_groups
            = (Inl (ValueError (name_exists_msg (cf_key_name form_bad_groups))), db'))
   \<and> (\<exists>created db'. create_key [] ''id2'' 200 ''u1'' form_bad_groups = (Inr created, db')
        \<and> create_key db' ''id1'' 100 ''u1'' form_k1
            = (Inl (ValueError (name_exists_msg (cf_key_name form_k1))), db'))"
proof -
  have h1: "\<forall>k \<in> set []. \<not> (user_id k = ''u1'' \<and> key_name k = cf_key_name form_k1)"
    by simp
  have h2: "''id1'' \<notin> set (map row_id [])" and h3: "''id2'' \<notin> set (map row_id [])"
    by simp_all
  have h4: "cf_key_name form_bad_groups = cf_key_name form_k1"
    by (simp add: form_bad_groups_def)
  from duplicate_name [OF h1 h2 h3 h4, of 100 200] h1 h2 h3 h4 show ?thesis
    by blast
qed

section \<open>Deletion\<close>

text \<open>
  C8. \<open>delete_key\<close> never raises. It answers true exactly when the table holds a row
  with that id owned by the requester, and then no row with that id is left; it answers
  false otherwise, and then the table is as it was. A second deletion of the same id
  answers false.
\<close>

theorem delete_idempotent:
  "(\<exists>b. fst (delete_key db key_id uid) = Inr b)
   \<and> (fst (delete_key db key_id uid) = Inr True
        \<longleftrightarrow> (\<exists>k \<in> set db. row_id k = key_id \<and> user_id k = uid))
   \<and> (fst (delete_key db key_id uid) = Inr False
        \<longleftrightarrow> \<not> (\<exists>k \<in> set db. row_id k = key_id \<and> user_id k = uid))
   \<and> (fst (delete_key db key_id uid) = Inr False \<longrightarrow> snd (delete_key db key_id uid) = db)
   \<and> (fst (delete_key db key_id uid) = Inr True
        \<longrightarrow> snd (delete_key db key_id uid) = filter (\<lambda>k. row_id k \<noteq> key_id) db)
   \<and> delete_key (snd (delete_key db key_id uid)) key_id uid
       = (Inr False, snd (delete_key db key_id uid))"
proof (cases "find (\<lambda>k. row_id k = key_id \<and> user_id k = uid) db")
  case None
  then have "delete_key db key_id uid = (Inr False, db)"
    by (simp add: delete_key_def)
  moreover from None have "\<not> (\<exists>k \<in> set db. row_id k = key_id \<and> user_id k = uid)"
    by (auto simp: find_None_iff)
  ultimately show ?thesis by auto
next
  case (Some key)
  then have k: "key \<in> set db" "row_id key = key_id" "user_id key = uid"
    by (auto dest: find_SomeD)
  from Some k have d: "delete_key db key_id uid
                       = (Inr True, filter (\<lambda>k. row_id k \<noteq> key_id) db)"
    by (simp add: delete_key_def)
  have "find (\<lambda>k. row_id k = key_id \<and> user_id k = uid) (filter (\<lambda>k. row_id k \<noteq> key_id) db)
        = None"
    by (rule find_NoneI) simp
  then have "delete_key (filter (\<lambda>k. row_id k \<noteq> key_id) db) key_id uid
        = (Inr False, filter (\<lambda>k. row_id k \<noteq> key_id) db)"
    by (simp add: delete_key_def)
  with d k show ?thesis by auto
qed

theorem delete_idempotent_witness:
  "(\<exists>k \<in> set [row_k1]. row_id k = ''id1'' \<and> user_id k = ''u1'')
   \<and> fst (delete_key [row_k1] ''id1'' ''u1'') = Inr True
   \<and> snd (delete_key [row_k1] ''id1'' ''u1'') = filter (\<lambda>k. row_id k \<noteq> ''id1'') [row_k1]
   \<and> delete_key (snd (delete_key [row_k1] ''id1'' ''u1'')) ''id1'' ''u1''
       = (Inr False, snd (delete_key [row_k1] ''id1'' ''u1''))
   \<and> \<not> (\<exists>k \<in> set [row_k1]. row_id k = ''id1'' \<and> user_id k = ''u2'')
   \<and> fst (delete_key [row_k1] ''id1'' ''u2'') = Inr False
   \<and> snd (delete_key [row_k1] ''id1'' ''u2'') = [row_k1]"
proof -
  have h1: "\<exists>k \<in> set [row_k1]. row_id k = ''id1'' \<and> user_id k = ''u1''"
    by (simp add: row_k1_def)
  have h2: "\<not> (\<exists>k \<in> set [row_k1]. row_id k = ''id1'' \<and> user_id k = ''u2'')"
    by (simp add: row_k1_def)
  from delete_idempotent [of "[row_k1]" "''id1''" "''u1''"]
    delete_idempotent [of "[row_k1]" "''id1''" "''u2''"] h1 h2
  show ?thesis by blast
qed


section \<open>Keys accessible through groups\<close>

text \<open>
  In the local store the endpoint of the accessible keys answers 500 to every caller
  who passes the gate and has a group: the query of \<open>get_keys_by_group_ids\<close> is
  rejected by the database.
\<close>

lemma accessible_endpoint_query_fails:
  assumes "check_litellm_access user" and "get_user_groups directory user \<noteq> []"
  shows "get_accessible_litellm_keys directory db user
         = (Inl (HTTPException 500 ''Failed to retrieve accessible LiteLLM keys''), db)"
  using assms
  by (simp add: get_accessible_litellm_keys_def try_except_def Let_def
      get_keys_by_group_ids_raises except_http_reraise_def)








section \<open>Validation of the requested groups\<close>

lemma join_Cons: "join sep (x # xs) = x @ concat (map (\<lambda>y. sep @ y) xs)"
  by (induction xs arbitrary: x) simp_all

lemma validate_groups_invalid:
  assumes "\<not> set gids \<subseteq> set (get_user_groups directory user)"
  shows "validate_groups directory user (Some gids)
         = Some (HTTPException 400
             (''User is not a member of groups: ''
              @ join '', '' (filter (\<lambda>g. g \<notin> set (get_user_groups directory user)) gids)))"
proof -
  from assms have "gids \<noteq> []"
    by auto
  moreover from assms
  have "filter (\<lambda>g. g \<notin> set (get_user_groups directory user)) gids \<noteq> []"
    by (auto simp: filter_empty_conv)
  ultimately show ?thesis
    by (simp add: validate_groups_def Let_def)
qed

lemma validate_groups_detail:
  assumes "filter (\<lambda>x. x \<notin> set (get_user_groups directory user)) gids = g # rest"
  shows "validate_groups directory user (Some gids)
         = Some (HTTPException 400
             (''User is not a member of groups: '' @ g @ concat (map (\<lambda>x. '', '' @ x) rest)))"
proof -
  from assms have "g \<in> set (filter (\<lambda>x. x \<notin> set (get_user_groups directory user)) gids)"
    by simp
  then have "\<not> set gids \<subseteq> set (get_user_groups directory user)"
    by auto
  from validate_groups_invalid [OF this] show ?thesis
    by (simp only: assms join_Cons)
qed

lemma groups_400:
  assumes "check_litellm_access user"
    and "filter (\<lambda>x. x \<notin> set (get_user_groups directory user)) gids = g # rest"
  shows "cf_group_ids key_data = Some gids \<longrightarrow>
           create_litellm_key directory db new_id now key_data user
           = (Inl (HTTPException 400
                (''User is not a member of groups: ''
                 @ g @ concat (map (\<lambda>x. '', '' @ x) rest))), db)"
    and "uf_group_ids update_data = Some gids \<longrightarrow>
           update_litellm_key directory db now key_id update_data user
           = (Inl (HTTPException 400
                (''User is not a member of groups: ''
                 @ g @ concat (map (\<lambda>x. '', '' @ x) rest))), db)"
  using assms(1) validate_groups_detail [OF assms(2)]
  by (simp_all add: create_litellm_key_def update_litellm_key_def try_except_def
      except_value_error_def)

text \<open>
  C5. For a caller who passes the role gate and whose groups the directory gives, a
  creation or an update whose requested group list has a group outside the caller's
  groups is rejected with status 400 and the table is as it was. The detail names the
  requested ids that are not among the caller's groups, all of them and no other, in the
  order of the request: the first, then each further one after a comma and a space. When
  the directory lookup fails the caller counts as a member of no group, and every
  requested id is named.
\<close>

theorem invalid_groups_rejected:
  assumes "check_litellm_access user"
  shows "(directory (usr_id user) = Inr groups \<and> \<not> set gids \<subseteq> grp_id ` set groups \<longrightarrow>
            (\<exists>g rest.
               filter (\<lambda>x. x \<notin> grp_id ` set groups) gids = g # rest
               \<and> set (g # rest) = set gids - grp_id ` set groups
               \<and> (cf_group_ids key_data = Some gids \<longrightarrow>
                    create_litellm_key directory db new_id now key_data user
                    = (Inl (HTTPException 400
                         (''User is not a member of groups: ''
                          @ g @ concat (map (\<lambda>x. '', '' @ x) rest))), db))
               \<and> (uf_group_ids update_data = Some gids \<longrightarrow>
                    update_litellm_key directory db now key_id update_data user
                    = (Inl (HTTPException 400
                         (''User is not a member of groups: ''
                          @ g @ concat (map (\<lambda>x. '', '' @ x) rest))), db))))
         \<and> (directory (usr_id user) = Inl e \<and> gids \<noteq> [] \<longrightarrow>
            (\<exists>g rest.
               gids = g # rest
               \<and> (cf_group_ids key_data = Some gids \<longrightarrow>
                    create_litellm_key directory db new_id now key_data user
                    = (Inl (HTTPException 400
                         (''User is not a member of groups: ''
                          @ g @ concat (map (\<lambda>x. '', '' @ x) rest))), db))
               \<and> (uf_group_ids update_data = Some gids \<longrightarrow>
                    update_litellm_key directory db now key_id update_data user
                    = (Inl (HTTPException 400
                         (''User is not a member of groups: ''
                          @ g @ concat (map (\<lambda>x. '', '' @ x) rest))), db))))"
proof (intro conjI impI)
  assume "directory (usr_id user) = Inr groups \<and> \<not> set gids \<subseteq> grp_id ` set groups"
  then have ug: "set (get_user_groups directory user) = grp_id ` set groups"
    and n: "\<not> set gids \<subseteq> grp_id ` set groups"
    by (simp_all add: get_user_groups_def)
  from n have "filter (\<lambda>x. x \<notin> grp_id ` set groups) gids \<noteq> []"
    by (auto simp: filter_empty_conv)
  then obtain g rest where f: "filter (\<lambda>x. x \<notin> grp_id ` set groups) gids = g # rest"
    by (auto simp: neq_Nil_conv)
  then have f': "filter (\<lambda>x. x \<notin> set (get_user_groups directory user)) gids = g # rest"
    by (simp only: ug)
  have s: "set (g # rest) = set gids - grp_id ` set groups"
    unfolding f [symmetric] by auto
  from f s groups_400 (1) [where key_data = key_data and db = db and new_id = new_id and now = now,
      OF assms f']
    groups_400 (2) [where update_data = update_data and db = db and key_id = key_id
      and now = now, OF assms f']
  show "\<exists>g rest.
          filter (\<lambda>x. x \<notin> grp_id ` set groups) gids = g # rest
          \<and> set (g # rest) = set gids - grp_id ` set groups
          \<and> (cf_group_ids key_data = Some gids \<longrightarrow>
               create_litellm_key directory db new_id now key_data user
               = (Inl (HTTPException 400
                    (''User is not a member of groups: ''
                     @ g @ concat (map (\<lambda>x. '', '' @ x) rest))), db))
          \<and> (uf_group_ids update_data = Some gids \<longrightarrow>
               update_litellm_key directory db now key_id update_data user
               = (Inl (HTTPException 400
                    (''User is not a member of groups: ''
                     @ g @ concat (map (\<lambda>x. '', '' @ x) rest))), db))"
    by blast
next
  assume "directory (usr_id user) = Inl e \<and> gids \<noteq> []"
  then have ug: "get_user_groups directory user = []" and "gids \<noteq> []"
    by (simp_all add: get_user_groups_def)
  then obtain g rest where c: "gids = g # rest"
    by (auto simp: neq_Nil_conv)
  have f': "filter (\<lambda>x. x \<notin> set (get_user_groups directory user)) gids = g # rest"
    by (simp add: ug c)
  from c groups_400 (1) [where key_data = key_data and db = db and new_id = new_id and now = now,
      OF assms f']
    groups_400 (2) [where update_data = update_data and db = db and key_id = key_id
      and now = now, OF assms f']
  show "\<exists>g rest.
          gids = g # rest
          \<and> (cf_group_ids key_data = Some gids \<longrightarrow>
               create_litellm_key directory db new_id now key_data user
               = (Inl (HTTPException 400
                    (''User is not a member of groups: ''
                     @ g @ concat (map (\<lambda>x. '', '' @ x) rest))), db))
          \<and> (uf_group_ids update_data = Some gids \<longrightarrow>
               update_litellm_key directory db now key_id update_data user
               = (Inl (HTTPException 400
                    (''User is not a member of groups: ''
                     @ g @ concat (map (\<lambda>x. '', '' @ x) rest))), db))"
    by blast
qed

theorem invalid_groups_rejected_witness:
  "check_litellm_access user_u1
   \<and> directory_g1 (usr_id user_u1) = Inr [\<lparr>grp_id = ''g1'', grp_name = ''team''\<rparr>]
   \<and> \<not> set [''g1'', ''g2'', ''g3''] \<subseteq> grp_id ` set [\<lparr>grp_id = ''g1'', grp_name = ''team''\<rparr>]
   \<and> cf_group_ids form_g123 = Some [''g1'', ''g2'', ''g3'']
   \<and> uf_group_ids update_g123 = Some [''g1'', ''g2'', ''g3'']
   \<and> create_litellm_key directory_g1 [row_k1] ''id3'' 200 form_g123 user_u1
       = (Inl (HTTPException 400 ''User is not a member of groups: g2, g3''), [row_k1])
   \<and> update_litellm_key directory_g1 [row_k1] 200 ''id1'' update_g123 user_u1
       = (Inl (HTTPException 400 ''User is not a member of groups: g2, g3''), [row_k1])
   \<and> directory_down (usr_id user_u1) = Inl (Exception ''group lookup failed'')
   \<and> create_litellm_key directory_down [row_k1] ''id3'' 200 form_g123 user_u1
       = (Inl (HTTPException 400 ''User is not a member of groups: g1, g2, g3''), [row_k1])
   \<and> update_litellm_key directory_down [row_k1] 200 ''id1'' update_g123 user_u1
       = (Inl (HTTPException 400 ''User is not a member of groups: g1, g2, g3''), [row_k1])"
proof -
  have h1: "check_litellm_access user_u1"
    by (simp add: check_litellm_access_def user_u1_def)
  have d1: "directory_g1 (usr_id user_u1) = Inr [\<lparr>grp_id = ''g1'', grp_name = ''team''\<rparr>]"
    by (simp add: directory_g1_def user_u1_def)
  have n1: "\<not> set [''g1'', ''g2'', ''g3'']
              \<subseteq> grp_id ` set [\<lparr>grp_id = ''g1'', grp_name = ''team''\<rparr>]"
    by simp
  have h3: "cf_group_ids form_g123 = Some [''g1'', ''g2'', ''g3'']"
    by (simp add: form_g123_def)
  have h4: "uf_group_ids update_g123 = Some [''g1'', ''g2'', ''g3'']"
    by (simp add: update_g123_def)
  have d2: "directory_down (usr_id user_u1) = Inl (Exception ''group lookup failed'')"
    by (simp add: directory_down_def)
  have ne: "[''g1'', ''g2'', ''g3''] \<noteq> []"
    by simp
  have t1: "''User is not a member of groups: '' @ ''g2'' @ concat (map (\<lambda>x. '', '' @ x) [''g3''])
            = ''User is not a member of groups: g2, g3''"
    by simp
  have t2: "''User is not a member of groups: ''
              @ ''g1'' @ concat (map (\<lambda>x. '', '' @ x) [''g2'', ''g3''])
            = ''User is not a member of groups: g1, g2, g3''"
    by simp
  from invalid_groups_rejected [where user = user_u1 and directory = directory_g1
      and groups = "[\<lparr>grp_id = ''g1'', grp_name = ''team''\<rparr>]"
      and gids = "[''g1'', ''g2'', ''g3'']" and key_data = form_g123 and db = "[row_k1]"
      and new_id = "''id3''" and now = 200 and update_data = update_g123
      and key_id = "''id1''", OF h1, THEN conjunct1, rule_format, OF conjI [OF d1 n1]]
  obtain g rest
    where f: "filter (\<lambda>x. x \<notin> grp_id ` set [\<lparr>grp_id = ''g1'', grp_name = ''team''\<rparr>])
                [''g1'', ''g2'', ''g3''] = g # rest"
      and c: "cf_group_ids form_g123 = Some [''g1'', ''g2'', ''g3''] \<longrightarrow>
               create_litellm_key directory_g1 [row_k1] ''id3'' 200 form_g123 user_u1
               = (Inl (HTTPException 400
                    (''User is not a member of groups: ''
                     @ g @ concat (map (\<lambda>x. '', '' @ x) rest))), [row_k1])"
      and u: "uf_group_ids update_g123 = Some [''g1'', ''g2'', ''g3''] \<longrightarrow>
               update_litellm_key directory_g1 [row_k1] 200 ''id1'' update_g123 user_u1
               = (Inl (HTTPException 400
                    (''User is not a member of groups: ''
                     @ g @ concat (map (\<lambda>x. '', '' @ x) rest))), [row_k1])"
    by blast
  from f have "g = ''g2''" and "rest = [''g3'']"
    by simp_all
  with c u h3 h4
  have 1: "create_litellm_key directory_g1 [row_k1] ''id3'' 200 form_g123 user_u1
       = (Inl (HTTPException 400 ''User is not a member of groups: g2, g3''), [row_k1])"
    and 2: "update_litellm_key directory_g1 [row_k1] 200 ''id1'' update_g123 user_u1
       = (Inl (HTTPException 400 ''User is not a member of groups: g2, g3''), [row_k1])"
    unfolding t1 [symmetric] by blast+
  from invalid_groups_rejected [where user = user_u1 and directory = directory_down
      and e = "Exception ''group lookup failed''"
      and gids = "[''g1'', ''g2'', ''g3'']" and key_data = form_g123 and db = "[row_k1]"
      and new_id = "''id3''" and now = 200 and update_data = update_g123
      and key_id = "''id1''", OF h1, THEN conjunct2, rule_format, OF conjI [OF d2 ne]]
  obtain g' rest'
    where f2: "[''g1'', ''g2'', ''g3''] = g' # rest'"
      and c2: "cf_group_ids form_g123 = Some [''g1'', ''g2'', ''g3''] \<longrightarrow>
               create_litellm_key directory_down [row_k1] ''id3'' 200 form_g123 user_u1
               = (Inl (HTTPException 400
                    (''User is not a member of groups: ''
                     @ g' @ concat (map (\<lambda>x. '', '' @ x) rest'))), [row_k1])"
      and u2: "uf_group_ids update_g123 = Some [''g1'', ''g2'', ''g3''] \<longrightarrow>
               update_litellm_key directory_down [row_k1] 200 ''id1'' update_g123 user_u1
               = (Inl (HTTPException 400
                    (''User is not a member of groups: ''
                     @ g' @ concat (map (\<lambda>x. '', '' @ x) rest'))), [row_k1])"
    by blast
  from f2 have "g' = ''g1''" and "rest' = [''g2'', ''g3'']"
    by simp_all
  with c2 u2 h3 h4
  have 3: "create_litellm_key directory_down [row_k1] ''id3'' 200 form_g123 user_u1
       = (Inl (HTTPException 400 ''User is not a member of groups: g1, g2, g3''), [row_k1])"
    and 4: "update_litellm_key directory_down [row_k1] 200 ''id1'' update_g123 user_u1
       = (Inl (HTTPException 400 ''User is not a member of groups: g1, g2, g3''), [row_k1])"
    unfolding t2 [symmetric] by blast+
  from h1 d1 n1 h3 h4 d2 1 2 3 4 show ?thesis
    by blast
qed

section \<open>Updates\<close>

lemma eight_asterisks: "replicate 8 (CHR ''*'') = ''********''"
  by (simp add: eval_nat_numeral)

lemma apply_update_fields:
  "key_name (apply_update u now key)
     = (case uf_key_name u of None \<Rightarrow> key_name key | Some v \<Rightarrow> v)"
  "api_key (apply_update u now key)
     = (case uf_api_key u of None \<Rightarrow> api_key key | Some v \<Rightarrow> v)"
  "key_type (apply_update u now key)
     = (case uf_key_type u of None \<Rightarrow> key_type key | Some v \<Rightarrow> v)"
  "group_ids (apply_update u now key)
     = (case uf_group_ids u of None \<Rightarrow> group_ids key | Some v \<Rightarrow> Some v)"
  "is_active (apply_update u now key)
     = (case uf_is_active u of None \<Rightarrow> is_active key | Some v \<Rightarrow> v)"
  "description (apply_update u now key)
     = (case uf_description u of None \<Rightarrow> description key | Some v \<Rightarrow> Some v)"
  "metadata (apply_update u now key)
     = (case uf_metadata u of None \<Rightarrow> metadata key | Some v \<Rightarrow> Some v)"
  "updated_at (apply_update u now key) = now"
  "user_id (apply_update u now key) = user_id key"
  "created_at (apply_update u now key) = created_at key"
  "last_used_at (apply_update u now key) = last_used_at key"
  by (simp_all add: apply_update_def)

lemma check_rename_collision:
  assumes "k \<in> set db" and "user_id k = uid" and "row_id k \<noteq> key_id"
  shows "check_rename db key_id uid (Some (key_name k))
         = Some (ValueError (name_exists_msg (key_name k)))"
proof -
  from assms
  have "find (\<lambda>x. user_id x = uid \<and> key_name x = key_name k \<and> row_id x \<noteq> key_id) db \<noteq> None"
    by (auto simp: find_None_iff)
  then show ?thesis
    by (auto simp: check_rename_def)
qed

lemma check_rename_free:
  assumes "\<not> (\<exists>k \<in> set db. user_id k = uid \<and> row_id k \<noteq> key_id
                \<and> new_name = Some (key_name k))"
  shows "check_rename db key_id uid new_name = None"
proof (cases new_name)
  case None
  then show ?thesis by (simp add: check_rename_def)
next
  case (Some n)
  with assms
  have "find (\<lambda>x. user_id x = uid \<and> key_name x = n \<and> row_id x \<noteq> key_id) db = None"
    by (intro find_NoneI) auto
  with Some show ?thesis by (simp add: check_rename_def)
qed

lemma update_key_owned:
  assumes "distinct (map row_id db)" and "key \<in> set db" and "user_id key = uid"
  shows "update_key db now (row_id key) uid update_data
         = (case check_rename db (row_id key) uid (uf_key_name update_data) of
              Some e \<Rightarrow> (Inl e, db)
            | None \<Rightarrow>
                (Inr (Some (masked (apply_update update_data now key))),
                 map (\<lambda>k. if k = key then apply_update update_data now key else k) db))"
proof -
  have f: "find (\<lambda>k. row_id k = row_id key \<and> user_id k = uid) db = Some key"
    using find_unique [OF assms(1,2), of "\<lambda>k. user_id k = uid"] assms(3) by simp
  from assms(1) have inj: "inj_on row_id (set db)"
    by (simp add: distinct_map)
  have "map (\<lambda>k. if row_id k = row_id key then key' else k) db
        = map (\<lambda>k. if k = key then key' else k) db" for key'
  proof (rule map_cong [OF refl])
    fix x assume "x \<in> set db"
    with inj assms(2) have "row_id x = row_id key \<longleftrightarrow> x = key"
      by (auto dest: inj_onD)
    then show "(if row_id x = row_id key then key' else x) = (if x = key then key' else x)"
      by simp
  qed
  with f show ?thesis
    by (simp add: update_key_def Let_def split: option.splits)
qed

text \<open>
  C7, as the code has it. In the local store, an update of a row by its owner fails with
  the duplicate-name error, and changes nothing, when the new name is that of another
  row of the owner; otherwise (also when the new name is the row's own) it replaces the
  row, and only that row, by one in which each field given in the form has the given
  value, the update time is the clock's, and every other field is as before; the result
  is the new row with its secret masked. The gateway client forwards the update and
  answers with a record made of the request alone: the name, groups and activation of
  the request (empty name, no groups, active when not given) and a secret of eight
  asterisks.
\<close>

theorem update_frame:
  assumes "distinct (map row_id db)" and "key \<in> set db" and "user_id key = uid"
  shows "((\<exists>k \<in> set db. user_id k = uid \<and> row_id k \<noteq> row_id key
              \<and> uf_key_name update_data = Some (key_name k))
          \<longrightarrow> (\<exists>n. uf_key_name update_data = Some n
                \<and> update_key db now (row_id key) uid update_data
                    = (Inl (ValueError (name_exists_msg n)), db)))
         \<and> (\<not> (\<exists>k \<in> set db. user_id k = uid \<and> row_id k \<noteq> row_id key
                  \<and> uf_key_name update_data = Some (key_name k))
          \<longrightarrow> (\<exists>key'.
                update_key db now (row_id key) uid update_data
                  = (Inr (Some (key'\<lparr>api_key := mask_api_key (api_key key')\<rparr>)),
                     map (\<lambda>k. if k = key then key' else k) db)
                \<and> key_name key'
                    = (case uf_key_name update_data of None \<Rightarrow> key_name key | Some v \<Rightarrow> v)
                \<and> api_key key'
                    = (case uf_api_key update_data of None \<Rightarrow> api_key key | Some v \<Rightarrow> v)
                \<and> key_type key'
                    = (case uf_key_type update_data of None \<Rightarrow> key_type key | Some v \<Rightarrow> v)
                \<and> group_ids key'
                    = (case uf_group_ids update_data of
                         None \<Rightarrow> group_ids key | Some v \<Rightarrow> Some v)
                \<and> is_active key'
                    = (case uf_is_active update_data of None \<Rightarrow> is_active key | Some v \<Rightarrow> v)
                \<and> description key'
                    = (case uf_description update_data of
                         None \<Rightarrow> description key | Some v \<Rightarrow> Some v)
                \<and> metadata key'
                    = (case uf_metadata update_data of
                         None \<Rightarrow> metadata key | Some v \<Rightarrow> Some v)
                \<and> updated_at key' = now
                \<and> row_id key' = row_id key \<and> user_id key' = user_id key
                \<and> created_at key' = created_at key
                \<and> last_used_at key' = last_used_at key))
         \<and> update_user_key (Inr r) t key_id requester updates
             = Inr \<lparr>uk_id = key_id, uk_user_id = requester,
                    uk_key_name = dict_get (up_key_name updates) '''',
                    uk_api_key = ''********'',
                    uk_groups = dict_get (up_groups updates) [],
                    uk_updated_at = t,
                    uk_is_active = dict_get (up_is_active updates) True\<rparr>
         \<and> update_user_key (Inl e) t key_id requester updates
             = Inl (Exception (''Failed to update API key: '' @ e))"
proof -
  note upd = update_key_owned [OF assms, of now update_data]
  have 1: "\<exists>n. uf_key_name update_data = Some n
             \<and> update_key db now (row_id key) uid update_data
                 = (Inl (ValueError (name_exists_msg n)), db)"
    if "\<exists>k \<in> set db. user_id k = uid \<and> row_id k \<noteq> row_id key
          \<and> uf_key_name update_data = Some (key_name k)"
  proof -
    from that obtain k where k: "k \<in> set db" "user_id k = uid" "row_id k \<noteq> row_id key"
      and n: "uf_key_name update_data = Some (key_name k)"
      by blast
    from check_rename_collision [OF k] n upd show ?thesis
      by simp
  qed
  have 2: "\<exists>key'.
      update_key db now (row_id key) uid update_data
        = (Inr (Some (key'\<lparr>api_key := mask_api_key (api_key key')\<rparr>)),
           map (\<lambda>k. if k = key then key' else k) db)
      \<and> key_name key'
          = (case uf_key_name update_data of None \<Rightarrow> key_name key | Some v \<Rightarrow> v)
      \<and> api_key key'
          = (case uf_api_key update_data of None \<Rightarrow> api_key key | Some v \<Rightarrow> v)
      \<and> key_type key'
          = (case uf_key_type update_data of None \<Rightarrow> key_type key | Some v \<Rightarrow> v)
      \<and> group_ids key'
          = (case uf_group_ids update_data of None \<Rightarrow> group_ids key | Some v \<Rightarrow> Some v)
      \<and> is_active key'
          = (case uf_is_active update_data of None \<Rightarrow> is_active key | Some v \<Rightarrow> v)
      \<and> description key'
          = (case uf_description update_data of None \<Rightarrow> description key | Some v \<Rightarrow> Some v)
      \<and> metadata key'
          = (case uf_metadata update_data of None \<Rightarrow> metadata key | Some v \<Rightarrow> Some v)
      \<and> updated_at key' = now
      \<and> row_id key' = row_id key \<and> user_id key' = user_id key
      \<and> created_at key' = created_at key
      \<and> last_used_at key' = last_used_at key"
    if "\<not> (\<exists>k \<in> set db. user_id k = uid \<and> row_id k \<noteq> row_id key
              \<and> uf_key_name update_data = Some (key_name k))"
  proof -
    from check_rename_free [OF that] upd
    have "update_key db now (row_id key) uid update_data
          = (Inr (Some (masked (apply_update update_data now key))),
             map (\<lambda>k. if k = key then apply_update update_data now key else k) db)"
      by simp
    then show ?thesis
      by (intro exI [where x = "apply_update update_data now key"])
        (simp add: masked_def apply_update_fields)
  qed
  have 3: "update_user_key (Inr r) t key_id requester updates
             = Inr \<lparr>uk_id = key_id, uk_user_id = requester,
                    uk_key_name = dict_get (up_key_name updates) '''',
                    uk_api_key = ''********'',
                    uk_groups = dict_get (up_groups updates) [],
                    uk_updated_at = t,
                    uk_is_active = dict_get (up_is_active updates) True\<rparr>"
    by (simp add: update_user_key_def mask_key_def eight_asterisks)
  have 4: "update_user_key (Inl e) t key_id requester updates
             = Inl (Exception (''Failed to update API key: '' @ e))"
    by (simp add: update_user_key_def)
  from 1 2 3 4 show ?thesis
    by blast
qed

theorem update_frame_witness:
  "distinct (map row_id [row_k1, row_k2]) \<and> row_k1 \<in> set [row_k1, row_k2]
   \<and> row_k2 \<in> set [row_k1, row_k2] \<and> user_id row_k1 = ''u1'' \<and> user_id row_k2 = ''u1''
   \<and> uf_key_name update_same_name = Some (key_name row_k1)
   \<and> \<not> (\<exists>k \<in> set [row_k1, row_k2]. user_id k = ''u1'' \<and> row_id k \<noteq> row_id row_k1
            \<and> uf_key_name update_same_name = Some (key_name k))
   \<and> (\<exists>key'. update_key [row_k1, row_k2] 200 (row_id row_k1) ''u1'' update_same_name
           = (Inr (Some (key'\<lparr>api_key := mask_api_key (api_key key')\<rparr>)),
              map (\<lambda>k. if k = row_k1 then key' else k) [row_k1, row_k2])
         \<and> key_name key' = ''k1'' \<and> api_key key' = api_key row_k1
         \<and> is_active key' = False \<and> updated_at key' = 200
         \<and> created_at key' = created_at row_k1)
   \<and> (\<exists>k \<in> set [row_k1, row_k2]. user_id k = ''u1'' \<and> row_id k \<noteq> row_id row_k2
            \<and> uf_key_name update_same_name = Some (key_name k))
   \<and> (\<exists>n. uf_key_name update_same_name = Some n
         \<and> update_key [row_k1, row_k2] 200 (row_id row_k2) ''u1'' update_same_name
             = (Inl (ValueError (name_exists_msg n)), [row_k1, row_k2]))"
proof -
  have h1: "distinct (map row_id [row_k1, row_k2])"
    and h2: "row_k1 \<in> set [row_k1, row_k2]" and h2': "row_k2 \<in> set [row_k1, row_k2]"
    and h3: "user_id row_k1 = ''u1''" and h3': "user_id row_k2 = ''u1''"
    by (simp_all add: row_k1_def row_k2_def)
  have n: "uf_key_name update_same_name = Some (key_name row_k1)"
    by (simp add: update_same_name_def no_update_def row_k1_def)
  have h4: "\<not> (\<exists>k \<in> set [row_k1, row_k2]. user_id k = ''u1'' \<and> row_id k \<noteq> row_id row_k1
            \<and> uf_key_name update_same_name = Some (key_name k))"
    by (simp add: update_same_name_def no_update_def row_k1_def row_k2_def)
  have h4': "\<exists>k \<in> set [row_k1, row_k2]. user_id k = ''u1'' \<and> row_id k \<noteq> row_id row_k2
            \<and> uf_key_name update_same_name = Some (key_name k)"
    by (simp add: update_same_name_def no_update_def row_k1_def row_k2_def)
  from update_frame [where update_data = update_same_name and now = 200, OF h1 h2 h3,
      THEN conjunct2, THEN conjunct1, rule_format, OF h4]
  obtain key' where u: "update_key [row_k1, row_k2] 200 (row_id row_k1) ''u1'' update_same_name
           = (Inr (Some (key'\<lparr>api_key := mask_api_key (api_key key')\<rparr>)),
              map (\<lambda>k. if k = row_k1 then key' else k) [row_k1, row_k2])"
    and f1: "key_name key'
             = (case uf_key_name update_same_name of None \<Rightarrow> key_name row_k1 | Some v \<Rightarrow> v)"
    and f2: "api_key key'
             = (case uf_api_key update_same_name of None \<Rightarrow> api_key row_k1 | Some v \<Rightarrow> v)"
    and f3: "is_active key'
             = (case uf_is_active update_same_name of None \<Rightarrow> is_active row_k1 | Some v \<Rightarrow> v)"
    and f4: "updated_at key' = 200" and f5: "created_at key' = created_at row_k1"
    by blast
  from f1 f2 f3 have "key_name key' = ''k1''" and "api_key key' = api_key row_k1"
    and "is_active key' = False"
    by (simp_all add: update_same_name_def no_update_def)
  with u f4 f5 have a: "\<exists>key'. update_key [row_k1, row_k2] 200 (row_id row_k1) ''u1'' update_same_name
           = (Inr (Some (key'\<lparr>api_key := mask_api_key (api_key key')\<rparr>)),
              map (\<lambda>k. if k = row_k1 then key' else k) [row_k1, row_k2])
         \<and> key_name key' = ''k1'' \<and> api_key key' = api_key row_k1
         \<and> is_active key' = False \<and> updated_at key' = 200
         \<and> created_at key' = created_at row_k1"
    by blast
  from update_frame [where update_data = update_same_name and now = 200, OF h1 h2' h3',
      THEN conjunct1, rule_format, OF h4']
  have b: "\<exists>n. uf_key_name update_same_name = Some n
         \<and> update_key [row_k1, row_k2] 200 (row_id row_k2) ''u1'' update_same_name
             = (Inl (ValueError (name_exists_msg n)), [row_k1, row_k2])"
    by blast
  from h1 h2 h2' h3 h3' n h4 h4' a b show ?thesis
    by blast
qed

text \<open>
  C7 as stated fails in the gateway client: an update that gives a description only is
  answered with an empty name, activation true and a secret of eight asterisks, whatever
  the key's name, activation and secret are.
\<close>

theorem proxy_update_counterexample:
  "update_user_key (Inr ()) 200 ''id2'' ''u2'' only_description
     = Inr \<lparr>uk_id = ''id2'', uk_user_id = ''u2'', uk_key_name = Some '''',
            uk_api_key = ''********'', uk_groups = Some [], uk_updated_at = 200,
            uk_is_active = Some True\<rparr>
   \<and> ki_key_name info_k2_inactive = Some ''k2''
   \<and> ki_is_active info_k2_inactive = Some False
   \<and> ki_api_key info_k2_inactive = Some ''sk-abcdef1234567890''
   \<and> mask_key ''sk-abcdef1234567890'' \<noteq> ''********''"
  by (simp add: update_user_key_def only_description_def info_k2_inactive_def mask_key_def
      eight_asterisks)

section \<open>The role gate and the endpoints\<close>

text \<open>
  C9 fails on the listing endpoint: \<open>get_litellm_keys\<close> raises the 403 inside its
  \<^verbatim>\<open>try\<close>, and its only handler, \<^verbatim>\<open>except Exception\<close>, turns it into a 500. The
  sibling endpoints re-raise it. Here a user of role \<open>pending\<close> calls each endpoint.
\<close>

theorem list_denial_becomes_500:
  "\<not> check_litellm_access user_pending
   \<and> get_litellm_keys [row_k1] 0 100 user_pending
       = (Inl (HTTPException 500 ''Failed to retrieve LiteLLM keys''), [row_k1])
   \<and> get_litellm_key [row_k1] ''id1'' user_pending
       = (Inl (HTTPException 403 ''Access denied to LiteLLM key management''), [row_k1])
   \<and> create_litellm_key directory_g1 [row_k1] ''id2'' 200 form_k1 user_pending
       = (Inl (HTTPException 403 ''Access denied to LiteLLM key management''), [row_k1])
   \<and> update_litellm_key directory_g1 [row_k1] 200 ''id1'' update_same_name user_pending
       = (Inl (HTTPException 403 ''Access denied to LiteLLM key management''), [row_k1])
   \<and> delete_litellm_key [row_k1] ''id1'' user_pending
       = (Inl (HTTPException 403 ''Access denied to LiteLLM key management''), [row_k1])
   \<and> get_accessible_litellm_keys directory_g1 [row_k1] user_pending
       = (Inl (HTTPException 403 ''Access denied to LiteLLM key management''), [row_k1])"
  by (simp add: check_litellm_access_def user_pending_def get_litellm_keys_def
      get_litellm_key_def create_litellm_key_def update_litellm_key_def
      delete_litellm_key_def get_accessible_litellm_keys_def try_except_def
      except_exception_def except_http_reraise_def except_value_error_def
      access_denied_def)

text \<open>
  C10. For a caller who passes the role gate and whose resolved group list is empty, the
  endpoint of the accessible keys answers the empty list, whatever the table holds; a
  failed directory lookup resolves to the empty group list.
\<close>

theorem no_groups_empty_list:
  assumes "check_litellm_access user"
  shows "(get_user_groups directory user = []
            \<longrightarrow> get_accessible_litellm_keys directory db user = (Inr [], db))
         \<and> (directory (usr_id user) = Inl e \<longrightarrow> get_user_groups directory user = [])"
  using assms
  by (simp add: get_accessible_litellm_keys_def try_except_def get_user_groups_def)

theorem no_groups_empty_list_witness:
  "check_litellm_access user_u1
   \<and> directory_down (usr_id user_u1) = Inl (Exception ''group lookup failed'')
   \<and> get_user_groups directory_down user_u1 = []
   \<and> user_id row_k1 = usr_id user_u1
   \<and> get_accessible_litellm_keys directory_down [row_k1] user_u1 = (Inr [], [row_k1])"
proof -
  have h1: "check_litellm_access user_u1"
    by (simp add: check_litellm_access_def user_u1_def)
  have h2: "directory_down (usr_id user_u1) = Inl (Exception ''group lookup failed'')"
    by (simp add: directory_down_def)
  have o: "user_id row_k1 = usr_id user_u1"
    by (simp add: row_k1_def user_u1_def)
  from no_groups_empty_list [OF h1, of directory_down "[row_k1]" "Exception ''group lookup failed''"]
    h1 h2 o
  show ?thesis by blast
qed

end
